theory Spec2Isabelle
  imports Main "HOL-Library.Code_Target_Nat"
begin

section \<open>JavaScript strings\<close>

text \<open>
  A JavaScript string is a sequence of UTF-16 code units; \<open>length\<close>, indexing, \<open>===\<close> and
  regular expressions without the \<open>u\<close> flag all work on code units. A code unit is
  modelled by its number, so that the Cyrillic letters of the program's character
  classes (\<open>U+0410\<close> to \<open>U+044F\<close>) are ordinary values.
\<close>

type_synonym jschar = nat
type_synonym jsstring = "jschar list"

definition js :: "string \<Rightarrow> jsstring" where
  "js s = map of_char s"

text \<open>The class \<open>\s\<close> of a JavaScript regular expression, which is also what \<open>trim\<close> strips.\<close>

definition isWhiteSpace :: "jschar \<Rightarrow> bool" where
  "isWhiteSpace c \<longleftrightarrow>
     (9 \<le> c \<and> c \<le> 13) \<or> c = 32 \<or> c = 160 \<or> c = 5760 \<or> (8192 \<le> c \<and> c \<le> 8202) \<or>
     c = 8232 \<or> c = 8233 \<or> c = 8239 \<or> c = 8287 \<or> c = 12288 \<or> c = 65279"

text \<open>The line terminators, which \<open>.\<close> does not match.\<close>

definition isLineTerminator :: "jschar \<Rightarrow> bool" where
  "isLineTerminator c \<longleftrightarrow> c = 10 \<or> c = 13 \<or> c = 8232 \<or> c = 8233"

definition isDigit :: "jschar \<Rightarrow> bool" where
  "isDigit c \<longleftrightarrow> 48 \<le> c \<and> c \<le> 57"

text \<open>
  \<open>[A-Z\u0410-\u042F]\<close>, \<open>[a-z\u0430-\u044F]\<close> and \<open>[A-Za-z\u0410-\u042F\u0430-\u044F]\<close>: the source
  writes the Cyrillic ranges with the letters themselves.
\<close>

definition isUpper :: "jschar \<Rightarrow> bool" where
  "isUpper c \<longleftrightarrow> (65 \<le> c \<and> c \<le> 90) \<or> (1040 \<le> c \<and> c \<le> 1071)"

definition isLower :: "jschar \<Rightarrow> bool" where
  "isLower c \<longleftrightarrow> (97 \<le> c \<and> c \<le> 122) \<or> (1072 \<le> c \<and> c \<le> 1103)"

definition isLetter :: "jschar \<Rightarrow> bool" where
  "isLetter c \<longleftrightarrow> isUpper c \<or> isLower c"

text \<open>\<open>[a-z]\<close> under the \<open>i\<close> flag: the Latin letters of either case.\<close>

definition isLatinLetter :: "jschar \<Rightarrow> bool" where
  "isLatinLetter c \<longleftrightarrow> (65 \<le> c \<and> c \<le> 90) \<or> (97 \<le> c \<and> c \<le> 122)"

text \<open>
  \<open>String.prototype.toLowerCase\<close> belongs to the host. It is written out for the Basic
  Latin, Latin-1 and Cyrillic capitals; every other code unit is left as it is.
\<close>

definition lowerChar :: "jschar \<Rightarrow> jschar" where
  "lowerChar c =
     (if 65 \<le> c \<and> c \<le> 90 then c + 32
      else if 192 \<le> c \<and> c \<le> 222 \<and> c \<noteq> 215 then c + 32
      else if 1040 \<le> c \<and> c \<le> 1071 then c + 32
      else if 1024 \<le> c \<and> c \<le> 1039 then c + 80
      else c)"

definition toLowerCase :: "jsstring \<Rightarrow> jsstring" where
  "toLowerCase s = map lowerChar s"

definition trim :: "jsstring \<Rightarrow> jsstring" where
  "trim s = rev (dropWhile isWhiteSpace (rev (dropWhile isWhiteSpace s)))"

text \<open>
  \<open>s.replace(/[...]+/g, " ")\<close>: every maximal run of characters of the class becomes one
  space.
\<close>

function replaceRuns :: "(jschar \<Rightarrow> bool) \<Rightarrow> jsstring \<Rightarrow> jsstring" where
  "replaceRuns P [] = []"
| "replaceRuns P (c # cs) =
     (if P c then 32 # replaceRuns P (dropWhile P cs) else c # replaceRuns P cs)"
  by pat_completeness auto
termination
  by (relation "measure (\<lambda>(P, s). length s)")
     (auto simp: le_imp_less_Suc length_dropWhile_le)

text \<open>
  \<open>s.split(re)\<close> for a regular expression that never matches the empty string. The
  matcher \<open>sep\<close> is tried at each position from the left, as \<open>split\<close> does; it returns the
  length of the separator that starts there.
\<close>

function splitRegex :: "(jsstring \<Rightarrow> nat option) \<Rightarrow> jsstring \<Rightarrow> jsstring \<Rightarrow> jsstring list" where
  "splitRegex sep acc [] = [rev acc]"
| "splitRegex sep acc (c # cs) =
     (case sep (c # cs) of
        Some n \<Rightarrow> rev acc # splitRegex sep [] (drop (n - 1) cs)
      | None \<Rightarrow> splitRegex sep (c # acc) cs)"
  by pat_completeness auto
termination
  by (relation "measure (\<lambda>(sep, acc, s). length s)") auto

definition split :: "(jsstring \<Rightarrow> nat option) \<Rightarrow> jsstring \<Rightarrow> jsstring list" where
  "split sep s = splitRegex sep [] s"

text \<open>\<open>/\s+/\<close> at the head of a string.\<close>

definition spaceSep :: "jsstring \<Rightarrow> nat option" where
  "spaceSep s =
     (case takeWhile isWhiteSpace s of [] \<Rightarrow> None | w # ws \<Rightarrow> Some (length (w # ws)))"

text \<open>\<open>/\s*[-,]\s*/\<close> at the head of a string.\<close>

definition dashCommaSep :: "jsstring \<Rightarrow> nat option" where
  "dashCommaSep s =
     (case dropWhile isWhiteSpace s of
        [] \<Rightarrow> None
      | c # rest \<Rightarrow>
          if c = 45 \<or> c = 44
          then Some (length s - length (dropWhile isWhiteSpace rest))
          else None)"

section \<open>TextNormalizer\<close>

text \<open>
  \<open>cleanupText\<close>: runs of \<open>_\<close> and \<open>.\<close> become a space, runs of white space become a
  space, the result is trimmed. The empty string is returned as it is.
\<close>

definition cleanupText :: "jsstring \<Rightarrow> jsstring" where
  "cleanupText text =
     (if text = [] then text
      else trim (replaceRuns isWhiteSpace (replaceRuns (\<lambda>c. c = 95 \<or> c = 46) text)))"

section \<open>SimilarityMetric\<close>

text \<open>
  \<open>levenshteinDistance\<close> fills a table of \<open>m + 1\<close> rows and \<open>n + 1\<close> columns: first column,
  first row, then the cells row by row.
\<close>

definition setCell :: "nat list list \<Rightarrow> nat \<Rightarrow> nat \<Rightarrow> nat \<Rightarrow> nat list list" where
  "setCell dp i j v = dp[i := (dp ! i)[j := v]]"

definition cell :: "jsstring \<Rightarrow> jsstring \<Rightarrow> nat list list \<Rightarrow> nat \<Rightarrow> nat \<Rightarrow> nat" where
  "cell str1 str2 dp i j =
     (if str1 ! (i - 1) = str2 ! (j - 1) then dp ! (i - 1) ! (j - 1)
      else 1 + min (dp ! (i - 1) ! j) (min (dp ! i ! (j - 1)) (dp ! (i - 1) ! (j - 1))))"

definition fillRow :: "jsstring \<Rightarrow> jsstring \<Rightarrow> nat \<Rightarrow> nat list list \<Rightarrow> nat list list" where
  "fillRow str1 str2 i dp =
     fold (\<lambda>j dp. setCell dp i j (cell str1 str2 dp i j)) [1..<length str2 + 1] dp"

definition levenshteinTable :: "jsstring \<Rightarrow> jsstring \<Rightarrow> nat list list" where
  "levenshteinTable str1 str2 =
     (let m = length str1; n = length str2;
          dp0 = replicate (m + 1) (replicate (n + 1) 0);
          dp1 = fold (\<lambda>i dp. setCell dp i 0 i) [0..<m + 1] dp0;
          dp2 = fold (\<lambda>j dp. setCell dp 0 j j) [0..<n + 1] dp1
      in fold (fillRow str1 str2) [1..<m + 1] dp2)"

definition levenshteinDistance :: "jsstring \<Rightarrow> jsstring \<Rightarrow> nat" where
  "levenshteinDistance str1 str2 = levenshteinTable str1 str2 ! length str1 ! length str2"

section \<open>AuthorValidator\<close>

text \<open>\<open>/(.)\1{k,}/\<close>: a character other than a line terminator, then \<open>k\<close> more copies of it.\<close>

fun hasRun :: "nat \<Rightarrow> jsstring \<Rightarrow> bool" where
  "hasRun k [] = False"
| "hasRun k (c # cs) =
     ((\<not> isLineTerminator c \<and> k \<le> length cs \<and> list_all (\<lambda>x. x = c) (take k cs)) \<or>
      hasRun k cs)"

text \<open>\<open>/^[a-z]+\d+$/i\<close>.\<close>

definition usernamePattern :: "jsstring \<Rightarrow> bool" where
  "usernamePattern s =
     (let letters = takeWhile isLatinLetter s; rest = dropWhile isLatinLetter s
      in letters \<noteq> [] \<and> rest \<noteq> [] \<and> list_all isDigit rest)"

text \<open>
  \<open>/^[A-Z\u0410-\u042F][a-z\u0430-\u044F]+$|^[A-Z\u0410-\u042F]\.$|^[A-Z\u0410-\u042F]$|^[A-Z\u0410-\u042F][a-z\u0430-\u044F]+[A-Z\u0410-\u042Fa-z\u0430-\u044F\s]*$/\<close>,
  one disjunct for each alternative.
\<close>

fun namePattern :: "jsstring \<Rightarrow> bool" where
  "namePattern [] = False"
| "namePattern [c] = isUpper c"
| "namePattern (c # d # ds) =
     (isUpper c \<and>
       ((isLower d \<and> list_all isLower ds) \<or>
        (d = 46 \<and> ds = []) \<or>
        (isLower d \<and> list_all (\<lambda>x. isLetter x \<or> isWhiteSpace x) ds)))"

text \<open>
  The two nested loops over the parts: a pair is refused when its members are equal
  without case, or are both shorter than 10 and within edit distance 1.
\<close>

definition tooSimilar :: "jsstring \<Rightarrow> jsstring \<Rightarrow> bool" where
  "tooSimilar p q \<longleftrightarrow>
     toLowerCase p = toLowerCase q \<or>
     (length p < 10 \<and> length q < 10 \<and> levenshteinDistance p q \<le> 1)"

fun noSimilarParts :: "jsstring list \<Rightarrow> bool" where
  "noSimilarParts [] = True"
| "noSimilarParts (p # ps) = (\<not> list_ex (tooSimilar p) ps \<and> noSimilarParts ps)"

definition isValidAuthorName :: "jsstring \<Rightarrow> bool" where
  "isValidAuthorName text =
     (if text = [] then False
      else
        let cleanText = filter (\<lambda>c. \<not> (c = 46 \<or> c = 44 \<or> isWhiteSpace c \<or> c = 45)) text in
        if hasRun 2 cleanText then False
        else if cleanText \<noteq> [] \<and> list_all (\<lambda>c. \<not> (isLetter c \<or> isDigit c)) cleanText then False
        else if \<not> list_ex isLetter cleanText then False
        else if length cleanText < 2 \<or> length cleanText > 100 then False
        else
          let parts = split dashCommaSep text in
          if length (remdups (map toLowerCase parts)) < length parts then False
          else if length parts > 6 then False
          else if list_ex usernamePattern parts then False
          else if \<not> list_ex namePattern parts then False
          else noSimilarParts parts)"

text \<open>\<open>/^[A-Z\u0410-\u042F]\.$|^[A-Z\u0410-\u042F]$/\<close>.\<close>

definition initialPattern :: "jsstring \<Rightarrow> bool" where
  "initialPattern w \<longleftrightarrow>
     (case w of [c] \<Rightarrow> isUpper c | [c, d] \<Rightarrow> isUpper c \<and> d = 46 | _ \<Rightarrow> False)"

definition isLikelyAuthor :: "jsstring \<Rightarrow> bool" where
  "isLikelyAuthor text =
     (if \<not> isValidAuthorName text then False
      else
        let words = split spaceSep text;
            hasInitials = list_ex initialPattern words;
            hasCommaOrDot = list_ex (\<lambda>c. c = 46 \<or> c = 44) text;
            isShortName = (length words \<le> 3 \<and> list_ex (\<lambda>word. length word \<le> 2) words)
        in hasInitials \<or> (hasCommaOrDot \<and> isShortName) \<or> (length words \<le> 3 \<and> hasInitials))"

section \<open>Paths\<close>

text \<open>
  The functions of Node's \<open>path\<close> module that the program calls, in their POSIX form
  (\<open>/\<close> is the only separator). \<open>basename\<close> drops trailing slashes and keeps what follows
  the last remaining slash.
\<close>

definition basename :: "jsstring \<Rightarrow> jsstring" where
  "basename p =
     rev (takeWhile (\<lambda>c. c \<noteq> 47) (dropWhile (\<lambda>c. c = 47) (rev p)))"

text \<open>
  \<open>path.parse(p).name\<close>: the base name without its extension. The extension starts at
  the last dot, unless there is none, the base name starts with it, or the base name is
  \<open>..\<close>.
\<close>

definition parseName :: "jsstring \<Rightarrow> jsstring" where
  "parseName p =
     (let base = basename p;
          ext = takeWhile (\<lambda>c. c \<noteq> 46) (rev base)
      in if 46 \<notin> set base \<or> length ext + 1 = length base \<or> base = [46, 46] then base
         else take (length base - length ext - 1) base)"

definition dirname :: "jsstring \<Rightarrow> jsstring" where
  "dirname p =
     (if p = [] then [46]
      else
        let hasRoot = (hd p = 47);
            r = dropWhile (\<lambda>c. c \<noteq> 47) (dropWhile (\<lambda>c. c = 47) (rev (tl p)))
        in if r = [] then (if hasRoot then [47] else [46])
           else if hasRoot \<and> length r = 1 then [47, 47]
           else take (length r) p)"

text \<open>
  \<open>path.normalize\<close> walks the segments between slashes: empty segments and \<open>.\<close> are
  dropped, \<open>..\<close> removes the segment before it (or stays, in a relative path with nothing
  left to remove). The stack \<open>res\<close> holds the kept segments, last first.
\<close>

definition slashSep :: "jsstring \<Rightarrow> nat option" where
  "slashSep s = (case s of [] \<Rightarrow> None | c # cs \<Rightarrow> if c = 47 then Some 1 else None)"

fun normalizeSegments :: "bool \<Rightarrow> jsstring list \<Rightarrow> jsstring list \<Rightarrow> jsstring list" where
  "normalizeSegments allowAboveRoot res [] = rev res"
| "normalizeSegments allowAboveRoot res (seg # segs) =
     (if seg = [] \<or> seg = [46] then normalizeSegments allowAboveRoot res segs
      else if seg = [46, 46] then
        (case res of
           [] \<Rightarrow> normalizeSegments allowAboveRoot (if allowAboveRoot then [seg] else []) segs
         | lastSeg # below \<Rightarrow>
             if lastSeg = [46, 46]
             then normalizeSegments allowAboveRoot (if allowAboveRoot then seg # res else res) segs
             else normalizeSegments allowAboveRoot below segs)
      else normalizeSegments allowAboveRoot (seg # res) segs)"

fun joinWith :: "jsstring \<Rightarrow> jsstring list \<Rightarrow> jsstring" where
  "joinWith sep [] = []"
| "joinWith sep [x] = x"
| "joinWith sep (x # y # ys) = x @ sep @ joinWith sep (y # ys)"

definition normalize :: "jsstring \<Rightarrow> jsstring" where
  "normalize p =
     (if p = [] then [46]
      else
        let isAbsolute = (hd p = 47);
            trailingSeparator = (last p = 47);
            res = joinWith [47] (normalizeSegments (\<not> isAbsolute) [] (split slashSep p))
        in if res = [] then
             (if isAbsolute then [47] else if trailingSeparator then [46, 47] else [46])
           else (if isAbsolute then [47] else []) @ res @ (if trailingSeparator then [47] else []))"

text \<open>\<open>path.join(a, b)\<close>: the non-empty arguments joined by a slash, then normalized.\<close>

definition join :: "jsstring \<Rightarrow> jsstring \<Rightarrow> jsstring" where
  "join a b =
     (let joined = (if a = [] then b else if b = [] then a else a @ [47] @ b)
      in if joined = [] then [46] else normalize joined)"

section \<open>FilenameParser\<close>

record metadata =
  title :: "jsstring option"
  author :: "jsstring option"
  year :: "int option"

text \<open>
  In a \<open>metadata\<close> record \<open>None\<close> stands for \<open>null\<close>, \<open>undefined\<close> and, for the year, \<open>NaN\<close>:
  the program only tests these fields for truthiness. A string is truthy when it is not
  empty, a number when it is not zero.
\<close>

definition truthyString :: "jsstring option \<Rightarrow> bool" where
  "truthyString v \<longleftrightarrow> (case v of None \<Rightarrow> False | Some s \<Rightarrow> s \<noteq> [])"

definition truthyNumber :: "int option \<Rightarrow> bool" where
  "truthyNumber v \<longleftrightarrow> (case v of None \<Rightarrow> False | Some n \<Rightarrow> n \<noteq> 0)"

definition publishersToRemove :: "jsstring list" where
  "publishersToRemove =
     [js ''Dorling Kindersley'', js ''DK'', js ''McGraw-Hill'', js ''McGraw Hill'',
      js ''O'' @ [39] @ js ''Reilly'', js ''Packt'', js ''Apress'', js ''Manning'', js ''Wiley'']"

text \<open>
  A character of a publisher's name under the \<open>i\<close> flag: a Latin letter matches both of
  its cases, any other character itself.
\<close>

definition eqIgnoreCase :: "jschar \<Rightarrow> jschar \<Rightarrow> bool" where
  "eqIgnoreCase a b \<longleftrightarrow>
     a = b \<or> (isLatinLetter a \<and> isLatinLetter b \<and> lowerChar a = lowerChar b)"

text \<open>
  \<open>cleanName.replace(new RegExp("^" + publisher + "\\.?\\s*", "i"), "")\<close>: the publisher at
  the start, one optional dot and the white space after it are removed.
\<close>

definition removePublisher :: "jsstring \<Rightarrow> jsstring \<Rightarrow> jsstring" where
  "removePublisher publisher cleanName =
     (if length publisher \<le> length cleanName \<and>
         list_all2 eqIgnoreCase publisher (take (length publisher) cleanName)
      then
        (case drop (length publisher) cleanName of
           [] \<Rightarrow> []
         | c # cs \<Rightarrow> dropWhile isWhiteSpace (if c = 46 then cs else c # cs))
      else cleanName)"

text \<open>
  \<open>/[\[\(]?(\d{4})[\]\)]?(?:\s*)?$/\<close> tried at the head of a string: an optional opening
  bracket, four digits, an optional closing bracket, white space up to the end. The result
  is the four digits.
\<close>

definition yearAt :: "jsstring \<Rightarrow> jsstring option" where
  "yearAt s =
     (let s1 = (case s of [] \<Rightarrow> s | c # cs \<Rightarrow> if c = 91 \<or> c = 40 then cs else s)
      in if 4 \<le> length s1 \<and> list_all isDigit (take 4 s1) then
           (let s2 = drop 4 s1;
                s3 = (case s2 of [] \<Rightarrow> s2 | c # cs \<Rightarrow> if c = 93 \<or> c = 41 then cs else s2)
            in if list_all isWhiteSpace s3 then Some (take 4 s1) else None)
         else None)"

text \<open>
  \<open>match\<close> takes the leftmost position where the pattern matches: the result is the text
  before the match and the digits.
\<close>

fun yearSearch :: "jsstring \<Rightarrow> jsstring \<Rightarrow> (jsstring \<times> jsstring) option" where
  "yearSearch acc [] = None"
| "yearSearch acc (c # cs) =
     (case yearAt (c # cs) of
        Some d \<Rightarrow> Some (rev acc, d)
      | None \<Rightarrow> yearSearch (c # acc) cs)"

definition parseInt :: "jsstring \<Rightarrow> int" where
  "parseInt ds = foldl (\<lambda>a c. 10 * a + (int c - 48)) 0 ds"

text \<open>\<open>[A-Za-z\u0410-\u042F\u0430-\u044F\s,.]\<close>, the class of the characters of an author after the first.\<close>

definition isNameChar :: "jschar \<Rightarrow> bool" where
  "isNameChar c \<longleftrightarrow> isLetter c \<or> isWhiteSpace c \<or> c = 44 \<or> c = 46"

text \<open>
  The same two classes under the \<open>i\<close> flag of the third pattern: a character belongs to
  the class when its capital does, which adds the Cyrillic letter variants \<open>U+1C80\<close> to
  \<open>U+1C86\<close>.
\<close>

definition isLetterI :: "jschar \<Rightarrow> bool" where
  "isLetterI c \<longleftrightarrow> isLetter c \<or> (7296 \<le> c \<and> c \<le> 7302)"

definition isNameCharI :: "jschar \<Rightarrow> bool" where
  "isNameCharI c \<longleftrightarrow> isLetterI c \<or> isWhiteSpace c \<or> c = 44 \<or> c = 46"

text \<open>
  A lazy group: \<open>rest\<close> is the remainder of the pattern. It is tried where the group
  stands; when it fails the group takes one more character, if that character is allowed
  and the group may still grow (\<open>n\<close> more characters).
\<close>

fun lazyGroup ::
  "nat \<Rightarrow> (jschar \<Rightarrow> bool) \<Rightarrow> (jsstring \<Rightarrow> 'a option) \<Rightarrow> jsstring \<Rightarrow> jsstring \<Rightarrow> (jsstring \<times> 'a) option" where
  "lazyGroup n allowed rest acc [] =
     (case rest [] of Some r \<Rightarrow> Some (rev acc, r) | None \<Rightarrow> None)"
| "lazyGroup n allowed rest acc (c # cs) =
     (case rest (c # cs) of
        Some r \<Rightarrow> Some (rev acc, r)
      | None \<Rightarrow> if 0 < n \<and> allowed c then lazyGroup (n - 1) allowed rest (c # acc) cs else None)"

text \<open>\<open>\s+\<close> followed by something that is not white space: the whole run is taken.\<close>

definition skipSpaces :: "jsstring \<Rightarrow> jsstring option" where
  "skipSpaces s =
     (case s of [] \<Rightarrow> None | c # cs \<Rightarrow> if isWhiteSpace c then Some (dropWhile isWhiteSpace cs) else None)"

definition expectChar :: "(jschar \<Rightarrow> bool) \<Rightarrow> jsstring \<Rightarrow> jsstring option" where
  "expectChar P s = (case s of [] \<Rightarrow> None | c # cs \<Rightarrow> if P c then Some cs else None)"

text \<open>
  \<open>\s+(.+?)$\<close>, the end of the first pattern. The greedy \<open>\s+\<close> takes the whole run of
  white space; when nothing is left for the group it gives back its last character, which
  the group accepts unless it is a line terminator.
\<close>

definition spacesThenAny :: "jsstring \<Rightarrow> jsstring option" where
  "spacesThenAny s =
     (let run = takeWhile isWhiteSpace s; r = dropWhile isWhiteSpace s
      in if run = [] then None
         else if r \<noteq> [] then (if list_ex isLineTerminator r then None else Some r)
         else if 2 \<le> length run \<and> \<not> isLineTerminator (last run) then Some [last run]
         else None)"

text \<open>
  \<open>([A-Za-z\u0410-\u042F\u0430-\u044F][A-Za-z\u0410-\u042F\u0430-\u044F\s,.]{lo,hi}?)$\<close>: the group runs to the end of the string.
  The lower bound is 0 for \<open>{0,50}?\<close> and 1 for \<open>+?\<close>; an absent upper bound is \<open>None\<close>.
\<close>

definition nameToEnd ::
  "(jschar \<Rightarrow> bool) \<Rightarrow> (jschar \<Rightarrow> bool) \<Rightarrow> nat \<Rightarrow> nat option \<Rightarrow> jsstring \<Rightarrow> jsstring option" where
  "nameToEnd first other lo hi s =
     (case s of
        [] \<Rightarrow> None
      | c # cs \<Rightarrow>
          if first c \<and> list_all other cs \<and> lo \<le> length cs \<and>
             (case hi of None \<Rightarrow> True | Some h \<Rightarrow> length cs \<le> h)
          then Some s else None)"

definition bindOpt :: "'a option \<Rightarrow> ('a \<Rightarrow> 'b option) \<Rightarrow> 'b option" where
  "bindOpt v f = (case v of None \<Rightarrow> None | Some x \<Rightarrow> f x)"

text \<open>Author - Title: \<open>/^([A-Za-z\u0410-\u042F\u0430-\u044F][A-Za-z\u0410-\u042F\u0430-\u044F\s,.]{0,50}?)\s+-\s+(.+?)$/\<close>.\<close>

definition patternAuthorTitle :: "jsstring \<Rightarrow> (jsstring \<times> jsstring) option" where
  "patternAuthorTitle s =
     (case s of
        [] \<Rightarrow> None
      | c # cs \<Rightarrow>
          if isLetter c then
            lazyGroup 50 isNameChar
              (\<lambda>t. bindOpt (skipSpaces t) (\<lambda>t1. bindOpt (expectChar (\<lambda>x. x = 45) t1) spacesThenAny))
              [c] cs
          else None)"

text \<open>Title - Author: \<open>/^(.+?)\s+-\s+([A-Za-z\u0410-\u042F\u0430-\u044F][A-Za-z\u0410-\u042F\u0430-\u044F\s,.]{0,50}?)$/\<close>.\<close>

definition patternTitleAuthor :: "jsstring \<Rightarrow> (jsstring \<times> jsstring) option" where
  "patternTitleAuthor s =
     (case s of
        [] \<Rightarrow> None
      | c # cs \<Rightarrow>
          if \<not> isLineTerminator c then
            lazyGroup (length cs) (\<lambda>x. \<not> isLineTerminator x)
              (\<lambda>t. bindOpt (skipSpaces t) (\<lambda>t1. bindOpt (expectChar (\<lambda>x. x = 45) t1)
                 (\<lambda>t2. bindOpt (skipSpaces t2) (nameToEnd isLetter isNameChar 0 (Some 50)))))
              [c] cs
          else None)"

text \<open>Title by Author: \<open>/^(.+?)\s+by\s+([A-Za-z\u0410-\u042F\u0430-\u044F][A-Za-z\u0410-\u042F\u0430-\u044F\s,.]+?)$/i\<close>.\<close>

definition patternTitleByAuthor :: "jsstring \<Rightarrow> (jsstring \<times> jsstring) option" where
  "patternTitleByAuthor s =
     (case s of
        [] \<Rightarrow> None
      | c # cs \<Rightarrow>
          if \<not> isLineTerminator c then
            lazyGroup (length cs) (\<lambda>x. \<not> isLineTerminator x)
              (\<lambda>t. bindOpt (skipSpaces t) (\<lambda>t1. bindOpt (expectChar (\<lambda>x. x = 98 \<or> x = 66) t1)
                 (\<lambda>t2. bindOpt (expectChar (\<lambda>x. x = 121 \<or> x = 89) t2)
                 (\<lambda>t3. bindOpt (skipSpaces t3) (nameToEnd isLetterI isNameCharI 1 None)))))
              [c] cs
          else None)"

text \<open>Title (Author): \<open>/^(.+?)\s+\(([A-Za-z\u0410-\u042F\u0430-\u044F][A-Za-z\u0410-\u042F\u0430-\u044F\s,.]+?)\)$/\<close>.\<close>

definition parenthesized :: "jsstring \<Rightarrow> jsstring option" where
  "parenthesized s =
     (if s \<noteq> [] \<and> last s = 41 then nameToEnd isLetter isNameChar 1 None (butlast s) else None)"

definition patternTitleParenAuthor :: "jsstring \<Rightarrow> (jsstring \<times> jsstring) option" where
  "patternTitleParenAuthor s =
     (case s of
        [] \<Rightarrow> None
      | c # cs \<Rightarrow>
          if \<not> isLineTerminator c then
            lazyGroup (length cs) (\<lambda>x. \<not> isLineTerminator x)
              (\<lambda>t. bindOpt (skipSpaces t) (\<lambda>t1. bindOpt (expectChar (\<lambda>x. x = 40) t1) parenthesized))
              [c] cs
          else None)"

text \<open>Single part: \<open>/^(.+?)$/\<close>.\<close>

definition patternSingle :: "jsstring \<Rightarrow> jsstring option" where
  "patternSingle s = (if s \<noteq> [] \<and> \<not> list_ex isLineTerminator s then Some s else None)"

text \<open>The patterns in their order; the first that matches decides.\<close>

datatype patternMatch = TwoParts jsstring jsstring | SinglePart jsstring | NoMatch

definition firstOf :: "'a option list \<Rightarrow> 'a option" where
  "firstOf vs = (case filter (\<lambda>v. v \<noteq> None) vs of [] \<Rightarrow> None | v # _ \<Rightarrow> v)"

definition matchPatterns :: "jsstring \<Rightarrow> patternMatch" where
  "matchPatterns cleanName =
     (case firstOf [patternAuthorTitle cleanName, patternTitleAuthor cleanName,
                    patternTitleByAuthor cleanName, patternTitleParenAuthor cleanName] of
        Some (g1, g2) \<Rightarrow> TwoParts (trim g1) (trim g2)
      | None \<Rightarrow>
          (case patternSingle cleanName of
             Some g \<Rightarrow> SinglePart (trim g)
           | None \<Rightarrow> NoMatch))"

text \<open>The name after the publishers are removed, and the year found at its end.\<close>

definition stripPublishers :: "jsstring \<Rightarrow> jsstring" where
  "stripPublishers nameWithoutExt = fold removePublisher publishersToRemove nameWithoutExt"

definition extractYear :: "jsstring \<Rightarrow> jsstring \<times> int option" where
  "extractYear cleanName =
     (case yearSearch [] cleanName of
        None \<Rightarrow> (cleanName, None)
      | Some (front, digits) \<Rightarrow>
          (let y = parseInt digits
           in if y \<noteq> 0 then (trim front, Some y) else (cleanName, Some y)))"

definition parseFilename :: "jsstring \<Rightarrow> metadata" where
  "parseFilename filename =
     (let nameWithoutExt = cleanupText (parseName filename);
          (cleanName, year) = extractYear (stripPublishers nameWithoutExt)
      in case matchPatterns cleanName of
           TwoParts firstPart secondPart \<Rightarrow>
             (let isFirstPartAuthor = isLikelyAuthor firstPart;
                  isSecondPartAuthor = isLikelyAuthor secondPart
              in if isFirstPartAuthor \<or> isSecondPartAuthor then
                   (if isFirstPartAuthor
                    then \<lparr>title = Some secondPart, author = Some firstPart, year = year\<rparr>
                    else \<lparr>title = Some firstPart, author = Some secondPart, year = year\<rparr>)
                 else
                   (let useFirstAsAuthor = (length firstPart \<le> length secondPart)
                    in \<lparr>title = Some (if useFirstAsAuthor then secondPart else firstPart),
                        author = Some (if useFirstAsAuthor then firstPart else secondPart),
                        year = year\<rparr>))
         | SinglePart part \<Rightarrow> \<lparr>title = Some part, author = None, year = year\<rparr>
         | NoMatch \<Rightarrow> \<lparr>title = Some cleanName, author = None, year = year\<rparr>)"

section \<open>FilenameFormatter\<close>

text \<open>\<open>/\s*[,]\s*|\s+/\<close> at the head of a string: the first alternative is tried first.\<close>

definition commaSpaceSep :: "jsstring \<Rightarrow> nat option" where
  "commaSpaceSep s =
     (let run = takeWhile isWhiteSpace s
      in case dropWhile isWhiteSpace s of
           [] \<Rightarrow> (if run = [] then None else Some (length run))
         | c # rest \<Rightarrow>
             if c = 44 then Some (length s - length (dropWhile isWhiteSpace rest))
             else if run = [] then None else Some (length run))"

text \<open>\<open>/^[A-Z\u0410-\u042F]$/\<close> and \<open>/^[A-Z\u0410-\u042F][a-z\u0430-\u044F]+$/\<close>.\<close>

definition singleCapital :: "jsstring \<Rightarrow> bool" where
  "singleCapital w \<longleftrightarrow> (case w of [c] \<Rightarrow> isUpper c | _ \<Rightarrow> False)"

definition capitalizedWord :: "jsstring \<Rightarrow> bool" where
  "capitalizedWord w \<longleftrightarrow>
     (case w of c # d # ds \<Rightarrow> isUpper c \<and> list_all isLower (d # ds) | _ \<Rightarrow> False)"

text \<open>\<open>part.replace(/\.$/, "") + "."\<close>.\<close>

definition withDot :: "jsstring \<Rightarrow> jsstring" where
  "withDot part = (if part \<noteq> [] \<and> last part = 46 then butlast part else part) @ [46]"

text \<open>
  The loop that groups the parts into authors: \<open>currentAuthor\<close> collects parts until the
  last part, or until the next part is a capitalized word.
\<close>

fun groupAuthors :: "jsstring list \<Rightarrow> jsstring list \<Rightarrow> jsstring list \<Rightarrow> jsstring list" where
  "groupAuthors [] currentAuthor authors = authors"
| "groupAuthors (part # rest) currentAuthor authors =
     (let current = currentAuthor @ [if singleCapital part then part @ [46] else part];
          isLastPart = (rest = []);
          nextPartIsNewAuthor = (case rest of [] \<Rightarrow> False | nextPart # _ \<Rightarrow> capitalizedWord nextPart)
      in if isLastPart \<or> nextPartIsNewAuthor then
           (let authorName = trim (joinWith [32] current)
            in groupAuthors rest [] (if authorName \<noteq> [] then authors @ [authorName] else authors))
         else groupAuthors rest current authors)"

text \<open>\<open>s.replace(/\s*,\s*/g, ", ")\<close>.\<close>

function normalizeCommas :: "jsstring \<Rightarrow> jsstring" where
  "normalizeCommas [] = []"
| "normalizeCommas (c # cs) =
     (case dropWhile isWhiteSpace (c # cs) of
        [] \<Rightarrow> c # normalizeCommas cs
      | d # rest \<Rightarrow>
          if d = 44 then [44, 32] @ normalizeCommas (dropWhile isWhiteSpace rest)
          else c # normalizeCommas cs)"
  by pat_completeness auto
termination
proof (relation "measure length")
  fix c :: jschar and cs d rest
  assume a: "dropWhile isWhiteSpace (c # cs) = d # rest"
  have "length (dropWhile isWhiteSpace rest) \<le> length rest"
    by (rule length_dropWhile_le)
  moreover have "length (d # rest) \<le> length (c # cs)"
    using length_dropWhile_le [of isWhiteSpace "c # cs"] a by simp
  ultimately show "(dropWhile isWhiteSpace rest, c # cs) \<in> measure length"
    by simp
qed auto

definition formatAuthorName :: "jsstring \<Rightarrow> jsstring" where
  "formatAuthorName authorText =
     (if authorText = [] then authorText
      else
        let parts = split commaSpaceSep authorText
        in if 2 \<le> length parts \<and> list_all initialPattern (butlast parts)
           then joinWith [32] (map withDot (butlast parts) @ [last parts])
           else
             (let authors = groupAuthors parts [] []
              in if 1 < length authors
                 then trim (normalizeCommas
                        (joinWith [32] (map (\<lambda>a. a @ [44]) (butlast authors) @ [last authors])))
                 else (case authors of [] \<Rightarrow> [] | a # _ \<Rightarrow> a)))"

text \<open>
  \<open>s.replace(/\s*-\s*$/, "")\<close> removes the leftmost suffix made of white space, a dash and
  white space; \<open>s.replace(/^\s*-\s*/, "")\<close> removes such a prefix.
\<close>

definition trailingDashAt :: "jsstring \<Rightarrow> bool" where
  "trailingDashAt s \<longleftrightarrow>
     (case dropWhile isWhiteSpace s of [] \<Rightarrow> False | c # rest \<Rightarrow> c = 45 \<and> list_all isWhiteSpace rest)"

fun removeTrailingDash :: "jsstring \<Rightarrow> jsstring" where
  "removeTrailingDash [] = []"
| "removeTrailingDash (c # cs) = (if trailingDashAt (c # cs) then [] else c # removeTrailingDash cs)"

definition removeLeadingDash :: "jsstring \<Rightarrow> jsstring" where
  "removeLeadingDash s =
     (case dropWhile isWhiteSpace s of
        [] \<Rightarrow> s
      | c # rest \<Rightarrow> if c = 45 then dropWhile isWhiteSpace rest else s)"

text \<open>\<open>/[<>:"/\\|?*]/\<close>.\<close>

definition isInvalidChar :: "jschar \<Rightarrow> bool" where
  "isInvalidChar c \<longleftrightarrow> c \<in> {60, 62, 58, 34, 47, 92, 124, 63, 42}"

text \<open>
  \<open>/\s+-\s+-\s+/\<close> at the head of a string: the length of the match, and
  \<open>s.replace(/\s+-\s+-\s+/g, " - ")\<close>.
\<close>

definition doubleDashAt :: "jsstring \<Rightarrow> nat option" where
  "doubleDashAt s =
     (case bindOpt (skipSpaces s) (\<lambda>t1. bindOpt (expectChar (\<lambda>x. x = 45) t1)
             (\<lambda>t2. bindOpt (skipSpaces t2) (\<lambda>t3. bindOpt (expectChar (\<lambda>x. x = 45) t3) skipSpaces))) of
        None \<Rightarrow> None
      | Some r \<Rightarrow> Some (length s - length r))"

function collapseDoubleDash :: "jsstring \<Rightarrow> jsstring" where
  "collapseDoubleDash [] = []"
| "collapseDoubleDash (c # cs) =
     (case doubleDashAt (c # cs) of
        None \<Rightarrow> c # collapseDoubleDash cs
      | Some n \<Rightarrow> [32, 45, 32] @ collapseDoubleDash (drop (n - 1) cs))"
  by pat_completeness auto
termination
  by (relation "measure length") auto

fun includesStr :: "jsstring \<Rightarrow> jsstring \<Rightarrow> bool" where
  "includesStr needle [] = (needle = [])"
| "includesStr needle (c # cs) = (take (length needle) (c # cs) = needle \<or> includesStr needle cs)"

text \<open>A number of the program is an integer; this is its decimal form.\<close>

function showNat :: "nat \<Rightarrow> jsstring" where
  "showNat n = (if n < 10 then [48 + n] else showNat (n div 10) @ [48 + n mod 10])"
  by pat_completeness auto
termination
  by (relation "measure id") auto

declare showNat.simps [simp del]

definition numberToString :: "int \<Rightarrow> jsstring" where
  "numberToString n = (if n < 0 then 45 # showNat (nat (- n)) else showNat (nat n))"

definition yearSuffix :: "int option \<Rightarrow> jsstring" where
  "yearSuffix y =
     (case y of
        None \<Rightarrow> []
      | Some n \<Rightarrow> if n \<noteq> 0 then js '' ['' @ numberToString n @ js '']'' else [])"

definition sanitize :: "jsstring \<Rightarrow> jsstring" where
  "sanitize newName =
     trim (replaceRuns isWhiteSpace
       (collapseDoubleDash (map (\<lambda>c. if isInvalidChar c then 45 else c) newName)))"

definition generateNewFilename :: "metadata \<Rightarrow> jsstring option" where
  "generateNewFilename md =
     (case title md of
        None \<Rightarrow> None
      | Some rawTitle \<Rightarrow>
          if rawTitle = [] then None
          else
            let cleanTitle = removeLeadingDash (removeTrailingDash (cleanupText rawTitle));
                cleanAuthor = map_option cleanupText (author md)
            in if cleanTitle = [] then None
               else
                 let withAuthor =
                       (case cleanAuthor of
                          None \<Rightarrow> cleanTitle
                        | Some a \<Rightarrow>
                            if a \<noteq> [] \<and> isValidAuthorName a then
                              (let formatted = removeLeadingDash (removeTrailingDash (formatAuthorName a))
                               in if formatted \<noteq> [] \<and> last cleanTitle \<noteq> 45 \<and> hd formatted \<noteq> 45
                                  then cleanTitle @ js '' - '' @ formatted
                                  else cleanTitle)
                            else cleanTitle);
                     newName = sanitize (withAuthor @ yearSuffix (year md))
                 in if includesStr (js '' - - '') newName \<or> includesStr (js ''jross'') newName \<or> hasRun 3 newName
                    then Some (cleanTitle @ yearSuffix (year md) @ js ''.pdf'')
                    else Some (newName @ js ''.pdf''))"

section \<open>MetadataResolver\<close>

text \<open>\<open>a || b\<close> on the fields of a metadata record.\<close>

definition orString :: "jsstring option \<Rightarrow> jsstring option \<Rightarrow> jsstring option" where
  "orString a b = (if truthyString a then a else b)"

definition orNumber :: "int option \<Rightarrow> int option \<Rightarrow> int option" where
  "orNumber a b = (if truthyNumber a then a else b)"

definition resolveMetadata :: "metadata \<Rightarrow> metadata \<Rightarrow> metadata" where
  "resolveMetadata filenameMetadata pdfMetadata =
     \<lparr>title = orString (title filenameMetadata) (title pdfMetadata),
      author = orString (author pdfMetadata) (author filenameMetadata),
      year = orNumber (year filenameMetadata) (year pdfMetadata)\<rparr>"

section \<open>ConcurrentRenamer\<close>

text \<open>
  The file system is a table from paths to entries; a file carries its content. What the
  program does to the outside is recorded as a list of events. The PDF library is the
  function \<open>extract\<close>, which gives the metadata of the file at a path, or \<open>None\<close> when
  \<open>extractPdfMetadata\<close> catches an error and returns \<open>null\<close>.
\<close>

datatype entry = File nat | Directory

type_synonym filesystem = "(jsstring \<times> entry) list"

datatype fsError = ENOENT | ENOTDIR | EISDIR

datatype event =
    ExtractMetadata jsstring
  | Renamed jsstring jsstring
  | ProcessingError jsstring
  | StartupError

definition pathExists :: "filesystem \<Rightarrow> jsstring \<Rightarrow> bool" where
  "pathExists fs p \<longleftrightarrow> map_of fs p \<noteq> None"

text \<open>
  \<open>fs.rename\<close> is the system call: it replaces an existing file at the destination. It
  fails when the source is missing or the destination's directory is.
\<close>

definition rename :: "filesystem \<Rightarrow> jsstring \<Rightarrow> jsstring \<Rightarrow> fsError + filesystem" where
  "rename fs src dst =
     (case map_of fs src of
        None \<Rightarrow> Inl ENOENT
      | Some e \<Rightarrow>
          if map_of fs (dirname dst) \<noteq> Some Directory then Inl ENOENT
          else if map_of fs dst = Some Directory then Inl EISDIR
          else Inr ((dst, e) # filter (\<lambda>(p, x). p \<noteq> src \<and> p \<noteq> dst) fs))"

text \<open>
  The first part of \<open>processPdfFile\<close>: the metadata of the file name, completed from the
  PDF only when the file name gave no author.
\<close>

definition resolveStage :: "(jsstring \<Rightarrow> metadata option) \<Rightarrow> jsstring \<Rightarrow> event list \<times> metadata" where
  "resolveStage extract filePath =
     (let filenameMetadata = parseFilename (basename filePath)
      in if \<not> truthyString (author filenameMetadata) then
           ([ExtractMetadata filePath],
            case extract filePath of
              Some pdfMetadata \<Rightarrow> resolveMetadata filenameMetadata pdfMetadata
            | None \<Rightarrow> filenameMetadata)
         else ([], filenameMetadata))"

text \<open>
  \<open>processPdfFile\<close> up to the computation of \<open>newPath\<close>: the events so far, and the target
  path unless the function has returned.
\<close>

definition planRename :: "(jsstring \<Rightarrow> metadata option) \<Rightarrow> jsstring \<Rightarrow> event list \<times> jsstring option" where
  "planRename extract filePath =
     (let filename = basename filePath;
          events = fst (resolveStage extract filePath);
          md = snd (resolveStage extract filePath)
      in if \<not> truthyString (title md) then (events, None)
         else
           (case generateNewFilename md of
              None \<Rightarrow> (events, None)
            | Some newFilename \<Rightarrow>
                if newFilename = filename then (events, None)
                else (events, Some (join (dirname filePath) newFilename))))"

definition processPdfFile ::
  "(jsstring \<Rightarrow> metadata option) \<Rightarrow> filesystem \<Rightarrow> jsstring \<Rightarrow> filesystem \<times> event list" where
  "processPdfFile extract fs filePath =
     (case planRename extract filePath of
        (events, None) \<Rightarrow> (fs, events)
      | (events, Some newPath) \<Rightarrow>
          if pathExists fs newPath \<and> newPath \<noteq> filePath then (fs, events)
          else
            (case rename fs filePath newPath of
               Inl err \<Rightarrow> (fs, events @ [ProcessingError filePath])
             | Inr fs' \<Rightarrow> (fs', events @ [Renamed filePath newPath])))"

text \<open>
  \<open>processFiles\<close> runs \<open>processPdfFile\<close> on all files through \<open>pLimit(MAX_CONCURRENT)\<close>. A
  call gives up control at its \<open>await\<close>s, so between the answer of \<open>fs.pathExists\<close> and the
  call of \<open>fs.rename\<close> other calls may run. A task is therefore queued, or has passed the
  check and holds its target, or is done; a schedule names the task that runs next.
  Queued tasks start in the order of the list, and only while fewer than \<open>maxConcurrent\<close>
  tasks are under way.
\<close>

datatype task = Queued jsstring | Checked jsstring jsstring | Done

definition stepTask ::
  "(jsstring \<Rightarrow> metadata option) \<Rightarrow> filesystem \<times> event list \<Rightarrow> task \<Rightarrow> (filesystem \<times> event list) \<times> task" where
  "stepTask extract w t =
     (case t of
        Queued filePath \<Rightarrow>
          (case planRename extract filePath of
             (events, None) \<Rightarrow> ((fst w, snd w @ events), Done)
           | (events, Some newPath) \<Rightarrow>
               if pathExists (fst w) newPath \<and> newPath \<noteq> filePath
               then ((fst w, snd w @ events), Done)
               else ((fst w, snd w @ events), Checked filePath newPath))
      | Checked filePath newPath \<Rightarrow>
          (case rename (fst w) filePath newPath of
             Inl err \<Rightarrow> ((fst w, snd w @ [ProcessingError filePath]), Done)
           | Inr fs' \<Rightarrow> ((fs', snd w @ [Renamed filePath newPath]), Done))
      | Done \<Rightarrow> (w, Done))"

definition isQueued :: "task \<Rightarrow> bool" where
  "isQueued t \<longleftrightarrow> (case t of Queued _ \<Rightarrow> True | _ \<Rightarrow> False)"

definition isChecked :: "task \<Rightarrow> bool" where
  "isChecked t \<longleftrightarrow> (case t of Checked _ _ \<Rightarrow> True | _ \<Rightarrow> False)"

definition mayStep :: "nat \<Rightarrow> task list \<Rightarrow> nat \<Rightarrow> bool" where
  "mayStep maxConcurrent tasks i \<longleftrightarrow>
     i < length tasks \<and>
     (case tasks ! i of
        Queued _ \<Rightarrow>
          \<not> list_ex isQueued (take i tasks) \<and> length (filter isChecked tasks) < maxConcurrent
      | Checked _ _ \<Rightarrow> True
      | Done \<Rightarrow> False)"

fun runSchedule ::
  "(jsstring \<Rightarrow> metadata option) \<Rightarrow> nat \<Rightarrow> nat list \<Rightarrow> (filesystem \<times> event list) \<times> task list \<Rightarrow>
     (filesystem \<times> event list) \<times> task list" where
  "runSchedule extract maxConcurrent [] st = st"
| "runSchedule extract maxConcurrent (i # sched) st =
     (if mayStep maxConcurrent (snd st) i
      then
        (let r = stepTask extract (fst st) (snd st ! i)
         in runSchedule extract maxConcurrent sched (fst r, (snd st)[i := snd r]))
      else runSchedule extract maxConcurrent sched st)"

text \<open>When the schedule is used up, the tasks that are left run one after the other.\<close>

fun finishTasks ::
  "(jsstring \<Rightarrow> metadata option) \<Rightarrow> filesystem \<times> event list \<Rightarrow> task list \<Rightarrow> filesystem \<times> event list" where
  "finishTasks extract w [] = w"
| "finishTasks extract w (t # ts) =
     (let r1 = stepTask extract w t; r2 = stepTask extract (fst r1) (snd r1)
      in finishTasks extract (fst r2) ts)"

definition processFiles ::
  "(jsstring \<Rightarrow> metadata option) \<Rightarrow> nat \<Rightarrow> nat list \<Rightarrow> filesystem \<Rightarrow> jsstring list \<Rightarrow> filesystem \<times> event list" where
  "processFiles extract maxConcurrent sched fs pdfFiles =
     (let st = runSchedule extract maxConcurrent sched ((fs, []), map Queued pdfFiles)
      in finishTasks extract (fst st) (snd st))"

text \<open>
  \<open>fs.readdir(dir, {withFileTypes: true})\<close>: the names and kinds of the entries whose
  directory is \<open>dir\<close>.
\<close>

definition readdir :: "filesystem \<Rightarrow> jsstring \<Rightarrow> fsError + (jsstring \<times> entry) list" where
  "readdir fs dir =
     (case map_of fs dir of
        None \<Rightarrow> Inl ENOENT
      | Some (File c) \<Rightarrow> Inl ENOTDIR
      | Some Directory \<Rightarrow>
          Inr (map (\<lambda>(p, e). (basename p, e)) (filter (\<lambda>(p, e). p \<noteq> dir \<and> dirname p = dir) fs)))"

definition extname :: "jsstring \<Rightarrow> jsstring" where
  "extname p = drop (length (parseName p)) (basename p)"

definition subdirsOf :: "jsstring \<Rightarrow> (jsstring \<times> entry) list \<Rightarrow> jsstring list" where
  "subdirsOf currentDir items =
     map (\<lambda>(name, e). join currentDir name) (filter (\<lambda>(name, e). e = Directory) items)"

definition pdfsOf :: "jsstring \<Rightarrow> (jsstring \<times> entry) list \<Rightarrow> jsstring list" where
  "pdfsOf currentDir items =
     map (\<lambda>(name, e). join currentDir name)
       (filter (\<lambda>(name, e). e \<noteq> Directory \<and> toLowerCase (extname name) = js ''.pdf'') items)"

text \<open>
  \<open>getAllPdfFiles\<close>: the loop over the stack of directories. An error of \<open>readdir\<close> ends
  it. A loop that never ends has the value \<open>None\<close>.
\<close>

partial_function (option) walkDirs ::
  "filesystem \<Rightarrow> jsstring list \<Rightarrow> jsstring list \<Rightarrow> (fsError + jsstring list) option" where
  "walkDirs fs stack pdfFiles =
     (if stack = [] then Some (Inr pdfFiles)
      else
        (case readdir fs (last stack) of
           Inl err \<Rightarrow> Some (Inl err)
         | Inr items \<Rightarrow>
             walkDirs fs (butlast stack @ subdirsOf (last stack) items)
               (pdfFiles @ pdfsOf (last stack) items)))"

declare walkDirs.simps [code]

definition getAllPdfFiles :: "filesystem \<Rightarrow> jsstring \<Rightarrow> (fsError + jsstring list) option" where
  "getAllPdfFiles fs dir = walkDirs fs [dir] []"

text \<open>
  The program: the exit code, the file system it leaves and the events. \<open>sourceDir\<close> is
  the value of \<open>PDF_SOURCE_DIR\<close>, \<open>None\<close> when the variable is not set.
\<close>

definition main ::
  "jsstring option \<Rightarrow> nat \<Rightarrow> nat list \<Rightarrow> (jsstring \<Rightarrow> metadata option) \<Rightarrow> filesystem \<Rightarrow>
     (nat \<times> filesystem \<times> event list) option" where
  "main sourceDir maxConcurrent sched extract fs =
     (case sourceDir of
        None \<Rightarrow> Some (1, fs, [StartupError])
      | Some dir \<Rightarrow>
          if dir = [] then Some (1, fs, [StartupError])
          else
            (case getAllPdfFiles fs dir of
               None \<Rightarrow> None
             | Some (Inl err) \<Rightarrow> Some (0, fs, [ProcessingError dir])
             | Some (Inr pdfFiles) \<Rightarrow>
                 (let r = processFiles extract maxConcurrent sched fs pdfFiles
                  in Some (0, fst r, snd r))))"

section \<open>Notions used in the proofs\<close>

text \<open>
  The recurrence of the edit distance, on the strings themselves: the table of
  \<open>levenshteinDistance\<close> holds its values on the reversed prefixes of the two strings.
\<close>

fun editRec :: "jsstring \<Rightarrow> jsstring \<Rightarrow> nat" where
  "editRec [] ys = length ys"
| "editRec (x # xs) [] = Suc (length xs)"
| "editRec (x # xs) (y # ys) =
     (if x = y then editRec xs ys
      else 1 + min (editRec xs (y # ys)) (min (editRec (x # xs) ys) (editRec xs ys)))"

definition prefixDist :: "jsstring \<Rightarrow> jsstring \<Rightarrow> nat \<Rightarrow> nat \<Rightarrow> nat" where
  "prefixDist a b i j = editRec (rev (take i a)) (rev (take j b))"

definition tableDims :: "nat \<Rightarrow> nat \<Rightarrow> nat list list \<Rightarrow> bool" where
  "tableDims m n dp \<longleftrightarrow> length dp = Suc m \<and> (\<forall>row \<in> set dp. length row = Suc n)"

text \<open>
  The cells that hold their final value when the loops are at row \<open>i\<close> and column \<open>j\<close>.
\<close>

definition known :: "jsstring \<Rightarrow> jsstring \<Rightarrow> nat \<Rightarrow> nat \<Rightarrow> nat list list \<Rightarrow> bool" where
  "known a b i j dp \<longleftrightarrow>
     tableDims (length a) (length b) dp \<and>
     (\<forall>i' \<le> length a. \<forall>j' \<le> length b.
        (i' = 0 \<or> j' = 0 \<or> i' < i \<or> (i' = i \<and> j' < j)) \<longrightarrow> dp ! i' ! j' = prefixDist a b i' j')"

section \<open>The edit distance\<close>

lemma editRec_Nil2 [simp]: "editRec xs [] = length xs"
  by (cases xs) simp_all

lemma editRec_sym: "editRec xs ys = editRec ys xs"
  by (induction xs ys rule: editRec.induct) (simp_all add: min.commute min.left_commute)

lemma editRec_zero_iff: "editRec xs ys = 0 \<longleftrightarrow> xs = ys"
  by (induction xs ys rule: editRec.induct) auto

lemma editRec_refl [simp]: "editRec xs xs = 0"
  by (simp add: editRec_zero_iff)

lemma editRec_Cons_both: "editRec (x # xs) (y # ys) \<le> Suc (editRec xs ys)"
  by (simp add: le_SucI min_le_iff_disj)

text \<open>Dropping the head of one argument changes the distance by at most one.\<close>

lemma editRec_drop_head:
  "editRec (x # xs) ys \<le> Suc (editRec xs ys) \<and> editRec xs ys \<le> Suc (editRec (x # xs) ys)"
proof (induction "length xs + length ys" arbitrary: x xs ys rule: less_induct)
  case less
  show ?case
  proof (cases ys)
    case Nil
    then show ?thesis by simp
  next
    case (Cons y ys')
    have "editRec (y # ys') xs \<le> Suc (editRec ys' xs) \<and> editRec ys' xs \<le> Suc (editRec (y # ys') xs)"
      using less [of ys' xs y] Cons by (simp add: add.commute)
    then have 1: "editRec xs ys \<le> Suc (editRec xs ys')"
      and 2: "editRec xs ys' \<le> Suc (editRec xs ys)"
      unfolding Cons editRec_sym [of xs] by simp_all
    have 3: "editRec xs ys' \<le> Suc (editRec (x # xs) ys')"
      using less [of xs ys' x] Cons by simp
    show ?thesis
    proof (cases "x = y")
      case True
      then show ?thesis using 1 2 Cons by simp
    next
      case False
      then have "editRec (x # xs) ys =
          Suc (min (editRec xs ys) (min (editRec (x # xs) ys') (editRec xs ys')))"
        using Cons by simp
      then show ?thesis using 1 3 by (simp add: min_def split: if_splits)
    qed
  qed
qed

lemma editRec_drop_head2:
  "editRec xs (y # ys) \<le> Suc (editRec xs ys)"
  using editRec_drop_head [of y ys xs] by (simp add: editRec_sym [of xs])

lemma editRec_length_le: "length ys \<le> length xs + editRec xs ys"
proof (induction xs arbitrary: ys)
  case Nil
  then show ?case by simp
next
  case (Cons x xs)
  have "editRec xs ys \<le> Suc (editRec (x # xs) ys)"
    using editRec_drop_head [of x xs ys] by simp
  then show ?case using Cons [of ys] by simp
qed

lemma editRec_le_sum: "editRec xs ys \<le> length xs + length ys"
proof (induction xs)
  case Nil
  then show ?case by simp
next
  case (Cons x xs)
  have "editRec (x # xs) ys \<le> Suc (editRec xs ys)"
    using editRec_drop_head [of x xs ys] by simp
  then show ?case using Cons by simp
qed

lemma editRec_triangle: "editRec xs zs \<le> editRec xs ys + editRec ys zs"
proof (induction "length xs + length ys + length zs" arbitrary: xs ys zs rule: less_induct)
  case less
  show ?case
  proof (cases xs)
    case Nil
    then show ?thesis using editRec_length_le [of zs ys] by simp
  next
    case xs: (Cons x xs')
    show ?thesis
    proof (cases zs)
      case Nil
      have "length xs \<le> length ys + editRec ys xs"
        by (rule editRec_length_le)
      then show ?thesis using Nil by (simp add: editRec_sym [of ys xs])
    next
      case zs: (Cons z zs')
      show ?thesis
      proof (cases ys)
        case Nil
        then show ?thesis using editRec_le_sum [of xs zs] by simp
      next
        case ys: (Cons y ys')
        have I1: "editRec xs' zs \<le> editRec xs' ys + editRec ys zs"
          using less [of xs' ys zs] xs by simp
        have I2: "editRec xs zs' \<le> editRec xs ys + editRec ys zs'"
          using less [of xs ys zs'] zs by simp
        have I3: "editRec xs zs \<le> editRec xs ys' + editRec ys' zs"
          using less [of xs ys' zs] ys by simp
        have I4: "editRec xs zs' \<le> editRec xs ys' + editRec ys' zs'"
          using less [of xs ys' zs'] ys zs by simp
        have I5: "editRec xs' zs \<le> editRec xs' ys' + editRec ys' zs"
          using less [of xs' ys' zs] xs ys by simp
        have I6: "editRec xs' zs' \<le> editRec xs' ys' + editRec ys' zs'"
          using less [of xs' ys' zs'] xs ys zs by simp
        have A: "editRec xs zs \<le> Suc (editRec xs' zs)"
          using editRec_drop_head [of x xs' zs] xs by simp
        have B: "editRec xs zs \<le> Suc (editRec xs zs')"
          using editRec_drop_head2 [of xs z zs'] zs by simp
        have E: "editRec xs zs \<le> (if x = z then 0 else 1) + editRec xs' zs'"
          unfolding xs zs by (simp add: le_SucI min_le_iff_disj)
        have exy: "editRec xs ys =
            (if x = y then editRec xs' ys'
             else Suc (min (editRec xs' ys) (min (editRec xs ys') (editRec xs' ys'))))"
          unfolding xs ys by simp
        have eyz: "editRec ys zs =
            (if y = z then editRec ys' zs'
             else Suc (min (editRec ys' zs) (min (editRec ys zs') (editRec ys' zs'))))"
          unfolding ys zs by simp
        show ?thesis
        proof (cases "x = y")
          case True
          show ?thesis
          proof (cases "y = z")
            case True
            with \<open>x = y\<close> exy eyz E I6 show ?thesis by simp
          next
            case False
            with \<open>x = y\<close> exy eyz E I6 I5 I2 A B show ?thesis
              by (simp add: min_def split: if_splits)
          qed
        next
          case False
          show ?thesis
          proof (cases "y = z")
            case True
            with \<open>x \<noteq> y\<close> exy eyz E I6 I1 I4 A B show ?thesis
              by (simp add: min_def split: if_splits)
          next
            case False
            with \<open>x \<noteq> y\<close> exy eyz E I6 I1 I2 I3 I4 I5 A B show ?thesis
              by (simp add: min_def split: if_splits)
          qed
        qed
      qed
    qed
  qed
qed

lemma fold_upt_invariant:
  assumes "I lo s" and "lo \<le> hi"
    and step: "\<And>k t. lo \<le> k \<Longrightarrow> k < hi \<Longrightarrow> I k t \<Longrightarrow> I (Suc k) (f k t)"
  shows "I hi (fold f [lo..<hi] s)"
proof -
  have "n \<le> hi \<Longrightarrow> lo \<le> n \<Longrightarrow> I n (fold f [lo..<n] s)" for n
  proof (induction n)
    case 0
    then show ?case using assms(1) by simp
  next
    case (Suc n)
    show ?case
    proof (cases "lo \<le> n")
      case True
      then have "I n (fold f [lo..<n] s)" using Suc by simp
      then have "I (Suc n) (f n (fold f [lo..<n] s))"
        using step [of n] True Suc.prems by simp
      then show ?thesis using True by simp
    next
      case False
      then have "lo = Suc n" using Suc.prems by simp
      then show ?thesis using assms(1) by simp
    qed
  qed
  then show ?thesis using assms(2) by simp
qed

lemma tableDims_setCell:
  assumes "tableDims m n dp" and "i \<le> m"
  shows "tableDims m n (setCell dp i j v)"
proof -
  have "length (dp ! i) = Suc n"
    using assms by (simp add: tableDims_def)
  moreover have "set (dp[i := (dp ! i)[j := v]]) \<subseteq> insert ((dp ! i)[j := v]) (set dp)"
    by (rule set_update_subset_insert)
  ultimately show ?thesis
    using assms by (auto simp: tableDims_def setCell_def)
qed

lemma nth_setCell:
  "tableDims m n dp \<Longrightarrow> i \<le> m \<Longrightarrow> j \<le> n \<Longrightarrow> i' \<le> m \<Longrightarrow>
     setCell dp i j v ! i' ! j' = (if i' = i \<and> j' = j then v else dp ! i' ! j')"
  by (auto simp: tableDims_def setCell_def nth_list_update)

lemma prefixDist_0 [simp]: "i \<le> length a \<Longrightarrow> prefixDist a b i 0 = i"
  "j \<le> length b \<Longrightarrow> prefixDist a b 0 j = j"
  by (simp_all add: prefixDist_def)

lemma prefixDist_Suc:
  assumes "i < length a" and "j < length b"
  shows "prefixDist a b (Suc i) (Suc j) =
     (if a ! i = b ! j then prefixDist a b i j
      else 1 + min (prefixDist a b i (Suc j)) (min (prefixDist a b (Suc i) j) (prefixDist a b i j)))"
  using assms by (simp add: prefixDist_def take_Suc_conv_app_nth)

lemma knownD:
  assumes "known a b i j dp" and "i' \<le> length a" and "j' \<le> length b"
    and "i' = 0 \<or> j' = 0 \<or> i' < i \<or> (i' = i \<and> j' < j)"
  shows "dp ! i' ! j' = prefixDist a b i' j'"
  using assms unfolding known_def by blast

lemma known_next_row:
  assumes "known a b i (Suc (length b)) dp"
  shows "known a b (Suc i) 1 dp"
  unfolding known_def
proof (intro conjI allI impI)
  show "tableDims (length a) (length b) dp"
    using assms by (simp add: known_def)
next
  fix i' j'
  assume "i' \<le> length a" "j' \<le> length b" "i' = 0 \<or> j' = 0 \<or> i' < Suc i \<or> i' = Suc i \<and> j' < 1"
  then show "dp ! i' ! j' = prefixDist a b i' j'"
    by (intro knownD [OF assms]) auto
qed

lemma known_cell:
  assumes "known a b i j dp" and "1 \<le> i" and "i \<le> length a" and "1 \<le> j" and "j \<le> length b"
  shows "cell a b dp i j = prefixDist a b i j"
proof -
  obtain i0 j0 where ij: "i = Suc i0" "j = Suc j0"
    using assms(2,4) by (metis One_nat_def Suc_le_D)
  have "dp ! i0 ! j0 = prefixDist a b i0 j0" "dp ! i0 ! j = prefixDist a b i0 j"
    "dp ! i ! j0 = prefixDist a b i j0"
    using assms(3,5) ij by (auto intro!: knownD [OF assms(1)])
  then show ?thesis
    using assms ij by (simp add: cell_def prefixDist_Suc)
qed

lemma known_step:
  assumes "known a b i j dp" and "1 \<le> i" and "i \<le> length a" and "1 \<le> j" and "j \<le> length b"
  shows "known a b i (Suc j) (setCell dp i j (cell a b dp i j))"
proof -
  have dims: "tableDims (length a) (length b) dp"
    using assms(1) by (simp add: known_def)
  show ?thesis
    unfolding known_def
  proof (intro conjI allI impI)
    show "tableDims (length a) (length b) (setCell dp i j (cell a b dp i j))"
      using dims assms(3) by (rule tableDims_setCell)
  next
    fix i' j'
    assume b: "i' \<le> length a" "j' \<le> length b"
      and c: "i' = 0 \<or> j' = 0 \<or> i' < i \<or> i' = i \<and> j' < Suc j"
    show "setCell dp i j (cell a b dp i j) ! i' ! j' = prefixDist a b i' j'"
    proof (cases "i' = i \<and> j' = j")
      case True
      then show ?thesis
        using nth_setCell [OF dims assms(3) assms(5) b(1)] known_cell [OF assms] by simp
    next
      case False
      then have "i' = 0 \<or> j' = 0 \<or> i' < i \<or> i' = i \<and> j' < j"
        using c by auto
      then have "dp ! i' ! j' = prefixDist a b i' j'"
        using b by (intro knownD [OF assms(1)])
      moreover have "setCell dp i j (cell a b dp i j) ! i' ! j' = dp ! i' ! j'"
        using nth_setCell [OF dims assms(3) assms(5) b(1), of "cell a b dp i j" j'] False by auto
      ultimately show ?thesis by simp
    qed
  qed
qed

lemma known_fillRow:
  assumes "known a b i 1 dp" and "1 \<le> i" and "i \<le> length a"
  shows "known a b (Suc i) 1 (fillRow a b i dp)"
proof -
  have "known a b i (length b + 1) (fold (\<lambda>j dp. setCell dp i j (cell a b dp i j)) [1..<length b + 1] dp)"
  proof (rule fold_upt_invariant [where I = "known a b i"])
    show "known a b i 1 dp" by (rule assms(1))
    show "1 \<le> length b + 1" by simp
    fix k t
    assume "1 \<le> k" "k < length b + 1" "known a b i k t"
    then show "known a b i (Suc k) (setCell t i k (cell a b t i k))"
      using known_step [of a b i k t] assms(2,3) by simp
  qed
  then have "known a b i (Suc (length b)) (fillRow a b i dp)"
    unfolding fillRow_def by simp
  then show ?thesis
    by (rule known_next_row)
qed

lemma known_borders:
  fixes a b :: jsstring
  defines "m \<equiv> length a" and "n \<equiv> length b"
  defines "dp0 \<equiv> replicate (m + 1) (replicate (n + 1) (0::nat))"
  defines "dp1 \<equiv> fold (\<lambda>i dp. setCell dp i 0 i) [0..<m + 1] dp0"
  defines "dp2 \<equiv> fold (\<lambda>j dp. setCell dp 0 j j) [0..<n + 1] dp1"
  shows "known a b 1 1 dp2"
proof -
  have d0: "tableDims m n dp0"
    by (simp add: tableDims_def dp0_def)
  have 1: "tableDims m n dp1 \<and> (\<forall>i' < m + 1. dp1 ! i' ! 0 = i')"
    unfolding dp1_def
  proof (rule fold_upt_invariant [where I = "\<lambda>k dp. tableDims m n dp \<and> (\<forall>i' < k. dp ! i' ! 0 = i')"])
    show "tableDims m n dp0 \<and> (\<forall>i'<0. dp0 ! i' ! 0 = i')" using d0 by simp
    show "0 \<le> m + 1" by simp
    fix k t
    assume k: "0 \<le> k" "k < m + 1" and t: "tableDims m n t \<and> (\<forall>i'<k. t ! i' ! 0 = i')"
    have "setCell t k 0 k ! i' ! 0 = i'" if "i' < Suc k" for i'
      using nth_setCell [of m n t k 0 i' k 0] t k that by (auto simp: less_Suc_eq)
    then show "tableDims m n (setCell t k 0 k) \<and> (\<forall>i'<Suc k. setCell t k 0 k ! i' ! 0 = i')"
      using tableDims_setCell [of m n t k] t k by simp
  qed
  have 2: "tableDims m n dp2 \<and> (\<forall>i' < m + 1. dp2 ! i' ! 0 = i') \<and> (\<forall>j' < n + 1. dp2 ! 0 ! j' = j')"
    unfolding dp2_def
  proof (rule fold_upt_invariant [where I = "\<lambda>k dp. tableDims m n dp \<and>
        (\<forall>i' < m + 1. dp ! i' ! 0 = i') \<and> (\<forall>j' < k. dp ! 0 ! j' = j')"])
    show "tableDims m n dp1 \<and> (\<forall>i'<m + 1. dp1 ! i' ! 0 = i') \<and> (\<forall>j'<0. dp1 ! 0 ! j' = j')"
      using 1 by simp
    show "0 \<le> n + 1" by simp
    fix k t
    assume k: "0 \<le> k" "k < n + 1"
      and t: "tableDims m n t \<and> (\<forall>i'<m + 1. t ! i' ! 0 = i') \<and> (\<forall>j'<k. t ! 0 ! j' = j')"
    have a: "setCell t 0 k k ! i' ! 0 = i'" if "i' < m + 1" for i'
      using nth_setCell [of m n t 0 k i' k 0] t k that by auto
    have b: "setCell t 0 k k ! 0 ! j' = j'" if "j' < Suc k" for j'
      using nth_setCell [of m n t 0 k 0 k j'] t k that by (auto simp: less_Suc_eq)
    show "tableDims m n (setCell t 0 k k) \<and> (\<forall>i'<m + 1. setCell t 0 k k ! i' ! 0 = i') \<and>
        (\<forall>j'<Suc k. setCell t 0 k k ! 0 ! j' = j')"
      using tableDims_setCell [of m n t 0] t a b by simp
  qed
  show ?thesis
    unfolding known_def
  proof (intro conjI allI impI)
    show "tableDims (length a) (length b) dp2" using 2 by (simp add: m_def n_def)
  next
    fix i' j'
    assume le: "i' \<le> length a" "j' \<le> length b"
      and "i' = 0 \<or> j' = 0 \<or> i' < 1 \<or> i' = 1 \<and> j' < 1"
    then have "i' = 0 \<or> j' = 0" by auto
    moreover have "dp2 ! i' ! 0 = i'" "dp2 ! 0 ! j' = j'"
      using 2 le by (simp_all add: m_def n_def less_Suc_eq_le)
    ultimately show "dp2 ! i' ! j' = prefixDist a b i' j'"
      using le by auto

  qed
qed

lemma levenshteinTable_known:
  "known a b (length a + 1) 1 (levenshteinTable a b)"
  unfolding levenshteinTable_def Let_def
proof (rule fold_upt_invariant [where I = "\<lambda>i. known a b i 1"])
  show "known a b 1 1 (fold (\<lambda>j dp. setCell dp 0 j j) [0..<length b + 1]
       (fold (\<lambda>i dp. setCell dp i 0 i) [0..<length a + 1]
         (replicate (length a + 1) (replicate (length b + 1) 0))))"
    by (rule known_borders)
  show "1 \<le> length a + 1" by simp
  fix k t
  assume "1 \<le> k" "k < length a + 1" "known a b k 1 t"
  then show "known a b (Suc k) 1 (fillRow a b k t)"
    using known_fillRow [of a b k t] by simp
qed

lemma levenshteinDistance_editRec:
  "levenshteinDistance a b = editRec (rev a) (rev b)"
proof -
  have "levenshteinTable a b ! length a ! length b = prefixDist a b (length a) (length b)"
    using levenshteinTable_known [of a b] by (simp add: known_def)
  then show ?thesis
    by (simp add: levenshteinDistance_def prefixDist_def)
qed

text \<open>
  Claim C9. The edit distance is a metric on strings: it is symmetric, it is zero exactly
  for equal strings, and it obeys the triangle inequality. Its values are natural numbers.
\<close>

theorem levenshteinDistance_metric:
  "levenshteinDistance a b = levenshteinDistance b a \<and>
   (levenshteinDistance a b = 0 \<longleftrightarrow> a = b) \<and>
   levenshteinDistance a c \<le> levenshteinDistance a b + levenshteinDistance b c"
  using editRec_sym [of "rev a" "rev b"] editRec_zero_iff [of "rev a" "rev b"]
    editRec_triangle [of "rev a" "rev c" "rev b"]
  by (simp add: levenshteinDistance_editRec)

section \<open>The validator on the test strings\<close>

lemmas char_defs = isWhiteSpace_def isLineTerminator_def isDigit_def isUpper_def isLower_def
  isLetter_def isLatinLetter_def lowerChar_def

lemmas validator_defs = js_def toLowerCase_def split_def dashCommaSep_def spaceSep_def
  usernamePattern_def tooSimilar_def isValidAuthorName_def initialPattern_def isLikelyAuthor_def
  levenshteinDistance_def levenshteinTable_def fillRow_def cell_def setCell_def Let_def

lemma validator_rejects_repeated: "\<not> isValidAuthorName (js ''aaaa'')"
  by (simp add: char_defs validator_defs)

lemma validator_rejects_username: "\<not> isValidAuthorName (js ''jross1'')"
  by (simp add: char_defs validator_defs)

lemma validator_rejects_symbols: "\<not> isValidAuthorName (js ''!!!@@@'')"
  by (simp add: char_defs validator_defs)

lemma validator_rejects_duplicate: "\<not> isValidAuthorName (js ''John, John'')"
  by (simp add: char_defs validator_defs)

lemma validator_accepts_surname_initial: "isValidAuthorName (js ''Smith, J.'')"
  by (simp add: char_defs validator_defs)

lemma filter_letters:
  "list_all isLetter t \<Longrightarrow>
     filter (\<lambda>c. \<not> (c = 46 \<or> c = 44 \<or> isWhiteSpace c \<or> c = 45)) t = t"
  by (induction t) (auto simp: char_defs)

lemma validator_rejects_long:
  assumes "length t = 150" and "list_all isLetter t"
  shows "\<not> isValidAuthorName t"
  unfolding isValidAuthorName_def Let_def filter_letters [OF assms(2)]
  using assms(1) by simp

text \<open>
  Claim C6. Of the eight test strings, the six above behave as stated. The two names
  written with initials, \<open>J.K. Rowling\<close> and the Cyrillic name of the claim (given by its
  code units, \<open>U+0410\<close> for the first capital), are rejected: neither contains a dash or a comma, so each is a single part, and
  no alternative of the name pattern allows a dot inside a part longer than two
  characters.
\<close>

theorem isValidAuthorName_rejects_initials:
  "isValidAuthorName (js ''J.K. Rowling'') = False \<and>
   isValidAuthorName [1040, 46, 32, 1041, 46, 32, 1048, 1074, 1072, 1085, 1086, 1074] = False"
  by (simp add: char_defs validator_defs)

text \<open>
  The author shapes that the comments of \<open>isLikelyAuthor\<close> give as examples (\<open>J.K.\<close>,
  \<open>Smith J.\<close>, \<open>R G\<close>, \<open>Doe, John\<close>) are not recognised either: the first three fail the
  validator for the same reason.
\<close>

lemma comment_examples_rejected:
  "\<not> isValidAuthorName (js ''J.K.'') \<and> \<not> isValidAuthorName (js ''Smith J.'') \<and>
   \<not> isValidAuthorName (js ''R G'') \<and>
   \<not> isLikelyAuthor (js ''J.K.'') \<and> \<not> isLikelyAuthor (js ''Smith J.'') \<and>
   \<not> isLikelyAuthor (js ''R G'') \<and> \<not> isLikelyAuthor (js ''Doe, John'')"
  by code_simp

section \<open>The parser\<close>

text \<open>
  Claim C3, as the code has it. When the cleaned name matches a pattern with two parts,
  the first part is the author if it is author-shaped, whatever the second part is; if
  only the second is author-shaped, the second is the author; if neither is, the shorter
  part is the author, the first one when both have the same length.
\<close>

theorem parseFilename_two_parts:
  assumes "matchPatterns (fst (extractYear (stripPublishers (cleanupText (parseName filename))))) =
      TwoParts firstPart secondPart"
  shows "parseFilename filename =
     (let firstIsAuthor =
            (isLikelyAuthor firstPart \<or>
             (\<not> isLikelyAuthor secondPart \<and> length firstPart \<le> length secondPart))
      in \<lparr>title = Some (if firstIsAuthor then secondPart else firstPart),
          author = Some (if firstIsAuthor then firstPart else secondPart),
          year = snd (extractYear (stripPublishers (cleanupText (parseName filename))))\<rparr>)"
  using assms by (auto simp: parseFilename_def Let_def split: prod.splits)

text \<open>
  An instance: in \<open>Foo Bar - Smith, J. [2019].pdf\<close> only the second part is author-shaped.
\<close>

theorem parseFilename_two_parts_witness:
  "matchPatterns (fst (extractYear (stripPublishers (cleanupText (parseName
      (js ''Foo Bar - Smith, J. [2019].pdf'')))))) = TwoParts (js ''Foo Bar'') (js ''Smith, J'') \<and>
   parseFilename (js ''Foo Bar - Smith, J. [2019].pdf'') =
     \<lparr>title = Some (js ''Foo Bar''), author = Some (js ''Smith, J''), year = Some 2019\<rparr>"
proof -
  have m: "matchPatterns (fst (extractYear (stripPublishers (cleanupText (parseName
      (js ''Foo Bar - Smith, J. [2019].pdf'')))))) = TwoParts (js ''Foo Bar'') (js ''Smith, J'')"
    by code_simp
  have a: "\<not> isLikelyAuthor (js ''Foo Bar'')" "isLikelyAuthor (js ''Smith, J'')"
    by code_simp+
  have y: "snd (extractYear (stripPublishers (cleanupText (parseName
      (js ''Foo Bar - Smith, J. [2019].pdf''))))) = Some 2019"
    by code_simp
  show ?thesis
    using parseFilename_two_parts [OF m] m a y by (simp add: Let_def)
qed

text \<open>
  Claim C3 as stated fails when both parts are author-shaped: in
  \<open>John R Smith - Doe J.pdf\<close> both are, the second is the shorter one, and the author is the
  first.
\<close>

theorem both_sides_likely_first_is_author:
  "matchPatterns (fst (extractYear (stripPublishers (cleanupText (parseName
      (js ''John R Smith - Doe J.pdf'')))))) = TwoParts (js ''John R Smith'') (js ''Doe J'') \<and>
   isLikelyAuthor (js ''John R Smith'') \<and> isLikelyAuthor (js ''Doe J'') \<and>
   length (js ''Doe J'') < length (js ''John R Smith'') \<and>
   author (parseFilename (js ''John R Smith - Doe J.pdf'')) = Some (js ''John R Smith'') \<and>
   title (parseFilename (js ''John R Smith - Doe J.pdf'')) = Some (js ''Doe J'')"
  by code_simp

section \<open>The formatter\<close>

text \<open>
  Claim C2, as the code has it. The file name of the example gives the author
  \<open>John R Smith\<close>, so the PDF is not consulted, and the new name is
  \<open>Programming Basics - John R., Smith [2019].pdf\<close>: the grouping loop of
  \<open>formatAuthorName\<close> closes an author before every capitalized word, here before \<open>Smith\<close>.
\<close>

theorem example_output:
  "truthyString (author (parseFilename (js ''McGraw-Hill.Programming_Basics_-_John_R_Smith_(2019).pdf''))) \<and>
   generateNewFilename (parseFilename (js ''McGraw-Hill.Programming_Basics_-_John_R_Smith_(2019).pdf'')) =
     Some (js ''Programming Basics - John R., Smith [2019].pdf'')"
  by code_simp

text \<open>Claim C2 as stated fails: the name it gives is not the result.\<close>

theorem example_output_differs:
  "generateNewFilename (parseFilename (js ''McGraw-Hill.Programming_Basics_-_John_R_Smith_(2019).pdf'')) \<noteq>
     Some (js ''Programming Basics - John R. Smith [2019].pdf'')"
  by code_simp

text \<open>
  The sanitizing step leaves none of the characters \<open>< > : " / \ | ? *\<close>: the characters it
  adds are spaces and dashes.
\<close>

lemma set_trim: "set (trim s) \<subseteq> set s"
  using set_dropWhileD [of _ isWhiteSpace "rev (dropWhile isWhiteSpace s)"]
    set_dropWhileD [of _ isWhiteSpace s]
  by (auto simp: trim_def)

lemma set_replaceRuns: "set (replaceRuns P s) \<subseteq> insert 32 (set s)"
proof (induction P s rule: replaceRuns.induct)
  case (1 P)
  then show ?case by simp
next
  case (2 P c cs)
  show ?case
  proof (cases "P c")
    case True
    then have "set (replaceRuns P (dropWhile P cs)) \<subseteq> insert 32 (set (dropWhile P cs))"
      using 2 by simp
    moreover have "set (dropWhile P cs) \<subseteq> set cs"
      by (auto dest: set_dropWhileD)
    ultimately show ?thesis using True by auto
  next
    case False
    then show ?thesis using 2 by auto
  qed
qed

lemma set_collapseDoubleDash: "set (collapseDoubleDash s) \<subseteq> {32, 45} \<union> set s"
proof (induction s rule: collapseDoubleDash.induct)
  case 1
  then show ?case by simp
next
  case (2 c cs)
  show ?case
  proof (cases "doubleDashAt (c # cs)")
    case None
    then show ?thesis using 2 by auto
  next
    case (Some n)
    then have "set (collapseDoubleDash (drop (n - 1) cs)) \<subseteq> {32, 45} \<union> set (drop (n - 1) cs)"
      using 2 by simp
    moreover have "set (drop (n - 1) cs) \<subseteq> set cs"
      by (rule set_drop_subset)
    ultimately show ?thesis using Some by auto
  qed
qed

lemma sanitize_valid: "c \<in> set (sanitize s) \<Longrightarrow> \<not> isInvalidChar c"
proof -
  assume "c \<in> set (sanitize s)"
  then have "c \<in> insert 32 ({32, 45} \<union> set (map (\<lambda>c. if isInvalidChar c then 45 else c) s))"
    unfolding sanitize_def
    using set_trim set_replaceRuns set_collapseDoubleDash by blast
  then show ?thesis
    by (auto simp: isInvalidChar_def)
qed

text \<open>
  Claim C7 fails on the fallback. The title \<open>10000 Tips: Python\<close> has a character repeated
  four times, so the sanitized name is dropped and the name is built again from the
  title, which was never sanitized: the colon (code unit 58) is in the result.
\<close>

theorem fallback_keeps_invalid_character:
  "generateNewFilename \<lparr>title = Some (js ''10000 Tips: Python''), author = None, year = None\<rparr> =
     Some (js ''10000 Tips: Python.pdf'') \<and>
   isInvalidChar 58 \<and> 58 \<in> set (js ''10000 Tips: Python.pdf'')"
  by code_simp

section \<open>Processing a file\<close>

text \<open>
  Claim C5. The PDF is read exactly when the file name gave no author. The record that
  goes on is then the one of the file name when the PDF could not be read, and otherwise
  has the title and the year of the file name unless they are absent (then those of the
  PDF), and the author of the PDF unless it is absent (then that of the file name).
\<close>

lemma processPdfFile_events:
  "\<exists>tail. snd (processPdfFile extract fs filePath) = fst (resolveStage extract filePath) @ tail \<and>
     (\<forall>p. ExtractMetadata p \<notin> set tail)"
  by (auto simp: processPdfFile_def planRename_def Let_def split: option.splits sum.splits)

theorem resolveStage_merge:
  "resolveStage extract filePath =
     (let fm = parseFilename (basename filePath)
      in if truthyString (author fm) then ([], fm)
         else
           ([ExtractMetadata filePath],
            case extract filePath of
              None \<Rightarrow> fm
            | Some pm \<Rightarrow>
                \<lparr>title = (if truthyString (title fm) then title fm else title pm),
                 author = (if truthyString (author pm) then author pm else author fm),
                 year = (if truthyNumber (year fm) then year fm else year pm)\<rparr>)) \<and>
   (ExtractMetadata p \<in> set (snd (processPdfFile extract fs filePath)) \<longleftrightarrow>
      p = filePath \<and> \<not> truthyString (author (parseFilename (basename filePath))))"
proof -
  obtain tail where t: "snd (processPdfFile extract fs filePath) = fst (resolveStage extract filePath) @ tail"
    "\<forall>p. ExtractMetadata p \<notin> set tail"
    using processPdfFile_events by blast
  have "ExtractMetadata p \<in> set (fst (resolveStage extract filePath)) \<longleftrightarrow>
      p = filePath \<and> \<not> truthyString (author (parseFilename (basename filePath)))"
    by (auto simp: resolveStage_def Let_def)
  then have 2: "ExtractMetadata p \<in> set (snd (processPdfFile extract fs filePath)) \<longleftrightarrow>
      p = filePath \<and> \<not> truthyString (author (parseFilename (basename filePath)))"
    using t by auto
  have 1: "resolveStage extract filePath =
     (let fm = parseFilename (basename filePath)
      in if truthyString (author fm) then ([], fm)
         else
           ([ExtractMetadata filePath],
            case extract filePath of
              None \<Rightarrow> fm
            | Some pm \<Rightarrow>
                \<lparr>title = (if truthyString (title fm) then title fm else title pm),
                 author = (if truthyString (author pm) then author pm else author fm),
                 year = (if truthyNumber (year fm) then year fm else year pm)\<rparr>))"
    by (simp add: resolveStage_def resolveMetadata_def orString_def orNumber_def Let_def
        split: option.split)
  from 1 2 show ?thesis by blast
qed

text \<open>
  Two instances, with a PDF that has a title, an author and a year: \<open>random_document.pdf\<close>
  has no author in its name and takes the one of the PDF, keeping its own title;
  \<open>Foo Bar - Smith J. [2019].pdf\<close> has one and the PDF is not read.
\<close>

theorem resolveStage_merge_witness:
  "resolveStage (\<lambda>p. Some \<lparr>title = Some (js ''Embedded Title''), author = Some (js ''Doe J''), year = Some 2001\<rparr>)
     (js ''/lib/random_document.pdf'') =
     ([ExtractMetadata (js ''/lib/random_document.pdf'')],
      \<lparr>title = Some (js ''random document''), author = Some (js ''Doe J''), year = Some 2001\<rparr>) \<and>
   resolveStage (\<lambda>p. Some \<lparr>title = Some (js ''Embedded Title''), author = Some (js ''Doe J''), year = Some 2001\<rparr>)
     (js ''/lib/Foo Bar - Smith J. [2019].pdf'') =
     ([], \<lparr>title = Some (js ''Foo Bar''), author = Some (js ''Smith J''), year = Some 2019\<rparr>)"
proof -
  let ?ex = "\<lambda>p::jsstring. Some \<lparr>title = Some (js ''Embedded Title''), author = Some (js ''Doe J''), year = Some 2001\<rparr>"
  have 1: "parseFilename (basename (js ''/lib/random_document.pdf'')) =
      \<lparr>title = Some (js ''random document''), author = None, year = None\<rparr>"
    by code_simp
  have 2: "parseFilename (basename (js ''/lib/Foo Bar - Smith J. [2019].pdf'')) =
      \<lparr>title = Some (js ''Foo Bar''), author = Some (js ''Smith J''), year = Some 2019\<rparr>"
    by code_simp
  have 3: "js ''random document'' \<noteq> []" "js ''Smith J'' \<noteq> []" "js ''Doe J'' \<noteq> []"
    by (simp_all add: js_def)
  show ?thesis
    using resolveStage_merge [of ?ex "js ''/lib/random_document.pdf''"]
      resolveStage_merge [of ?ex "js ''/lib/Foo Bar - Smith J. [2019].pdf''"] 3
    by (simp add: 1 2 Let_def truthyString_def truthyNumber_def)
qed

text \<open>
  Claim C4, as the code has it. A file whose name the pipeline reproduces is left alone:
  the file system is unchanged and nothing is renamed. Whether a name in the form
  \<open>Title - Author [Year].pdf\<close> is reproduced depends on the name.
\<close>

lemma resolveStage_no_rename: "Renamed a b \<notin> set (fst (resolveStage extract filePath))"
  by (simp add: resolveStage_def Let_def)




text \<open>
  Claim C10 fails on the fallback of the formatter. The file \<open>/lib/2019.pdf\<close> has no title
  in its name; the title of its PDF, \<open>TCP/IP 10000\<close>, has a slash and a character repeated
  four times, so the new name is built from the unsanitized title and the file is moved
  into the directory \<open>/lib/TCP\<close>.
\<close>

theorem fallback_moves_file:
  "processPdfFile (\<lambda>p. Some \<lparr>title = Some (js ''TCP/IP 10000''), author = None, year = None\<rparr>)
     [(js ''/lib'', Directory), (js ''/lib/TCP'', Directory), (js ''/lib/2019.pdf'', File 1)]
     (js ''/lib/2019.pdf'') =
   ([(js ''/lib/TCP/IP 10000 [2019].pdf'', File 1), (js ''/lib'', Directory), (js ''/lib/TCP'', Directory)],
    [ExtractMetadata (js ''/lib/2019.pdf''),
     Renamed (js ''/lib/2019.pdf'') (js ''/lib/TCP/IP 10000 [2019].pdf'')]) \<and>
   dirname (js ''/lib/TCP/IP 10000 [2019].pdf'') \<noteq> dirname (js ''/lib/2019.pdf'')"
  by code_simp

section \<open>Processing all files\<close>

text \<open>
  The check of \<open>processPdfFile\<close>: when the target exists at the time of the check and is
  not the file itself, nothing is renamed.
\<close>

lemma processPdfFile_collision_guard:
  assumes "planRename extract filePath = (events, Some newPath)"
    and "pathExists fs newPath" and "newPath \<noteq> filePath"
  shows "processPdfFile extract fs filePath = (fs, events)"
  using assms by (simp add: processPdfFile_def)

text \<open>
  With one task at a time the second of two files with the same target is skipped.
\<close>

lemma sequential_renames_skip:
  "processFiles (\<lambda>p. None) 1 [0, 1, 0, 1]
     [(js ''/lib'', Directory), (js ''/lib/Foo_Bar.pdf'', File 1), (js ''/lib/Foo.Bar.pdf'', File 2)]
     [js ''/lib/Foo_Bar.pdf'', js ''/lib/Foo.Bar.pdf''] =
   ([(js ''/lib/Foo Bar.pdf'', File 1), (js ''/lib'', Directory), (js ''/lib/Foo.Bar.pdf'', File 2)],
    [ExtractMetadata (js ''/lib/Foo_Bar.pdf''),
     Renamed (js ''/lib/Foo_Bar.pdf'') (js ''/lib/Foo Bar.pdf''),
     ExtractMetadata (js ''/lib/Foo.Bar.pdf'')])"
  by code_simp

text \<open>
  Claim C1 fails when two tasks are under way. \<open>Foo_Bar.pdf\<close> and \<open>Foo.Bar.pdf\<close> both
  resolve to \<open>Foo Bar.pdf\<close>. Both checks are answered before either rename runs, so both
  files are renamed, and the second rename replaces the first file: its content, 1, is
  gone.
\<close>

theorem concurrent_renames_overwrite:
  "processFiles (\<lambda>p. None) 2 [0, 1, 0, 1]
     [(js ''/lib'', Directory), (js ''/lib/Foo_Bar.pdf'', File 1), (js ''/lib/Foo.Bar.pdf'', File 2)]
     [js ''/lib/Foo_Bar.pdf'', js ''/lib/Foo.Bar.pdf''] =
   ([(js ''/lib/Foo Bar.pdf'', File 2), (js ''/lib'', Directory)],
    [ExtractMetadata (js ''/lib/Foo_Bar.pdf''), ExtractMetadata (js ''/lib/Foo.Bar.pdf''),
     Renamed (js ''/lib/Foo_Bar.pdf'') (js ''/lib/Foo Bar.pdf''),
     Renamed (js ''/lib/Foo.Bar.pdf'') (js ''/lib/Foo Bar.pdf'')])"
  by code_simp

section \<open>The program\<close>

text \<open>
  Claim C8, as the code has it. Without a source directory (the variable unset or empty)
  the program ends with exit code 1 and changes nothing. With a source directory that
  cannot be read, the error is logged, nothing is changed, and the exit code is 0.
\<close>

theorem main_startup:
  "(sourceDir = None \<or> sourceDir = Some [] \<longrightarrow>
      main sourceDir maxConcurrent sched extract fs = Some (1, fs, [StartupError])) \<and>
   (dir \<noteq> [] \<and> readdir fs dir = Inl err \<longrightarrow>
      main (Some dir) maxConcurrent sched extract fs = Some (0, fs, [ProcessingError dir]))"
proof -
  have "walkDirs fs [dir] [] = Some (Inl err)" if "readdir fs dir = Inl err"
    using that by (subst walkDirs.simps) simp
  then show ?thesis
    by (auto simp: main_def getAllPdfFiles_def)
qed

text \<open>An instance of both cases, on a library with one file.\<close>

theorem main_startup_witness:
  "main None 2 [] (\<lambda>p. None) [(js ''/lib'', Directory), (js ''/lib/a_b.pdf'', File 1)] =
     Some (1, [(js ''/lib'', Directory), (js ''/lib/a_b.pdf'', File 1)], [StartupError]) \<and>
   js ''/missing'' \<noteq> [] \<and>
   readdir [(js ''/lib'', Directory), (js ''/lib/a_b.pdf'', File 1)] (js ''/missing'') = Inl ENOENT \<and>
   main (Some (js ''/missing'')) 2 [] (\<lambda>p. None) [(js ''/lib'', Directory), (js ''/lib/a_b.pdf'', File 1)] =
     Some (0, [(js ''/lib'', Directory), (js ''/lib/a_b.pdf'', File 1)], [ProcessingError (js ''/missing'')])"
proof -
  have r: "readdir [(js ''/lib'', Directory), (js ''/lib/a_b.pdf'', File 1)] (js ''/missing'') = Inl ENOENT"
    by code_simp
  have n: "js ''/missing'' \<noteq> []"
    by (simp add: js_def)
  show ?thesis
    using main_startup [of None 2 "[]" "\<lambda>p. None" "[(js ''/lib'', Directory), (js ''/lib/a_b.pdf'', File 1)]"
        "js ''/missing''" ENOENT] r n
    by simp
qed

text \<open>
  Claim C8 as stated fails for a source directory that does not exist: the exit code
  is 0.
\<close>

theorem unreadable_source_exit_zero:
  "main (Some (js ''/missing'')) 2 [] (\<lambda>p. None) [] = Some (0, [], [ProcessingError (js ''/missing'')])"
  by code_simp

end
